theory Spec2Isabelle
  imports Complex_Main "HOL-Library.AList" "HOL-Library.Word"
begin

section \<open>The token server (the Fastify server, src/unnamed/part_000)\<close>

text \<open>
  The server has two routes of its own. Both handlers are modelled as functions of what they
  read: the process environment (a map from variable names to values, \<open>None\<close> for an unset
  variable), and, for \<open>/token\<close>, the outcome of \<open>generateInstructions()\<close> (imported from
  \<open>instructionConfig.js\<close>) and of the upstream \<open>fetch\<close>. A rejected promise or a thrown
  error is the left injection of a sum.
\<close>

type_synonym process_env = "string \<rightharpoonup> string"

record request =
  req_headers :: "(string \<times> string) list"
  req_query :: "(string \<times> string) list"

subsection \<open>GET /api-env\<close>

text \<open>
  \<^verbatim>\<open>
  server.get("/api-env", async (request, reply) => {
    return {
      OPENAI_API_KEY: process.env.OPENAI_API_KEY,
      NODE_ENV: process.env.NODE_ENV,
      PORT: process.env.PORT,
    };
  });
  \<close>
  The returned object is the reply body; a property whose value is \<open>undefined\<close> is \<open>None\<close>.
  No hook is registered on the server, so the handler is all that runs for the route.
\<close>

definition api_env :: "process_env \<Rightarrow> request \<Rightarrow> (string \<times> string option) list" where
  "api_env env request =
     [(''OPENAI_API_KEY'', env ''OPENAI_API_KEY''),
      (''NODE_ENV'', env ''NODE_ENV''),
      (''PORT'', env ''PORT'')]"

subsection \<open>GET /token\<close>

datatype server_error = InstructionsFailed | FetchFailed | BodyReadFailed

record 'cfg upstream_request =
  up_url :: string
  up_method :: string
  up_authorization :: string
  up_content_type :: string
  up_body :: 'cfg

record upstream_response =
  up_status :: nat
  up_text :: "server_error + string"

record http_response =
  status :: nat
  content_type :: string
  body :: string

text \<open>
  \<^verbatim>\<open>
  server.get("/token", async (request, reply) => {
    try {
      const config = await generateInstructions();
      const r = await fetch("https://api.openai.com/v1/realtime/sessions", {
        dispatcher,
        method: "POST",
        headers: {
          Authorization: `Bearer ${process.env.OPENAI_API_KEY}`,
          "Content-Type": "application/json",
        },
        body: JSON.stringify(config),
      });
      const responseClone = r.clone();
      const bodyText = await responseClone.text();
      return new Response(r.body, {
        status: 200,
        headers: { "Content-Type": "application/json" },
      });
    } catch (error) {
      throw error;
    }
  });
  \<close>
  The handler awaits \<open>generateInstructions()\<close>, posts the configuration to the provider with
  the long-lived key as bearer, reads a clone of the response for the debug log, and returns a
  new \<open>Response\<close> built from the upstream body with the literal status 200. The
  \<open>catch\<close> block logs and rethrows. \<open>up_body\<close> is the configuration whose
  \<open>JSON.stringify\<close> text is sent; \<open>up_text\<close> is the outcome of reading the body.
\<close>

definition token_route ::
  "process_env \<Rightarrow> (server_error + 'cfg) \<Rightarrow>
   ('cfg upstream_request \<Rightarrow> server_error + upstream_response) \<Rightarrow>
   request \<Rightarrow> server_error + http_response" where
  "token_route env generateInstructions fetch request =
     (case generateInstructions of
        Inl e \<Rightarrow> Inl e
      | Inr config \<Rightarrow>
          (case fetch \<lparr>up_url = ''https://api.openai.com/v1/realtime/sessions'',
                       up_method = ''POST'',
                       up_authorization =
                         ''Bearer '' @ (case env ''OPENAI_API_KEY'' of
                                          None \<Rightarrow> ''undefined'' | Some k \<Rightarrow> k),
                       up_content_type = ''application/json'',
                       up_body = config\<rparr> of
             Inl e \<Rightarrow> Inl e
           | Inr r \<Rightarrow>
               (case up_text r of
                  Inl e \<Rightarrow> Inl e
                | Inr bodyText \<Rightarrow>
                    Inr \<lparr>status = 200, content_type = ''application/json'',
                         body = bodyText\<rparr>)))"

section \<open>JSON values (chat.jsx)\<close>

text \<open>
  The client parses the token reply and the \<open>arguments\<close> string of every function call
  with \<open>JSON.parse\<close>, reads properties of the result and copies it into the object it
  caches. A parsed value is a \<open>json\<close>; the property list of an object is read with
  \<open>map_of\<close>. Numbers are only ever copied, never computed with, and are integers here.
\<close>

datatype json =
    JNull
  | JBool bool
  | JNum int
  | JStr string
  | JArr "json list"
  | JObj "(string \<times> json) list"

text \<open>The decimal text of an array index, the property key of an array element.\<close>

function decimal :: "nat \<Rightarrow> string" where
  "decimal n =
     (if n < 10 then [char_of (48 + n)]
      else decimal (n div 10) @ [char_of (48 + n mod 10)])"
  by pat_completeness auto
termination
  by (relation "measure id") auto

text \<open>
  The own enumerable properties of a value, as object spread (\<open>{...v}\<close>) copies them:
  the fields of an object, the elements of an array and the characters of a string under
  their indices, nothing for \<open>null\<close>, a number or a boolean.
\<close>

fun own_props :: "json \<Rightarrow> (string \<times> json) list" where
  "own_props (JObj kvs) = kvs"
| "own_props (JArr xs) = zip (map decimal [0..<length xs]) xs"
| "own_props (JStr s) = zip (map decimal [0..<length s]) (map (\<lambda>ch. JStr [ch]) s)"
| "own_props _ = []"

text \<open>
  \<open>v.k\<close> for a value other than \<open>null\<close>; \<open>None\<close> is \<open>undefined\<close>. Inherited
  properties (\<open>length\<close>, methods) are left out: the keys the client reads are
  \<open>client_secret\<close>, \<open>value\<close> and \<open>exercises\<close>.
\<close>

definition property :: "json \<Rightarrow> string \<Rightarrow> json option" where
  "property v k = map_of (own_props v) k"

fun truthy :: "json \<Rightarrow> bool" where
  "truthy JNull = False"
| "truthy (JBool b) = b"
| "truthy (JNum n) = (n \<noteq> 0)"
| "truthy (JStr s) = (s \<noteq> [])"
| "truthy _ = True"

text \<open>
  The object literal \<open>{f1: v1, ..., ...v}\<close>: the listed fields first, then the own
  properties of \<open>v\<close> written over them, so a property of \<open>v\<close> replaces a listed field
  of the same name.
\<close>

definition spread :: "(string \<times> json) list \<Rightarrow> json \<Rightarrow> json" where
  "spread listed v = JObj (AList.merge listed (own_props v))"

section \<open>The silence monitor (chat.jsx, checkAudioLevel)\<close>












section \<open>The chat page (chat.jsx): state, channel and timers\<close>

text \<open>
  Errors are values. The first three are the \<open>Error\<close>s \<open>startSession\<close> throws itself
  (\<open>'Failed to get token'\<close>, \<open>'Invalid token response'\<close>,
  \<open>'Microphone access denied'\<close>); the others are raised by the platform: a property read
  on \<open>null\<close> or a failed \<open>fetch\<close> (\<open>TypeError\<close>), text that is not JSON
  (\<open>SyntaxError\<close>), \<open>send\<close> on a data channel that is not open
  (\<open>InvalidStateError\<close>), a failed WebRTC operation (\<open>OperationError\<close>).
\<close>

datatype js_error =
    FailedToGetToken
  | InvalidTokenResponse
  | MicrophoneAccessDenied
  | TypeError
  | SyntaxError
  | InvalidStateError
  | OperationError

datatype connection_status = DISCONNECTED | CONNECTING | CONNECTED

text \<open>
  The three follow-up instructions are Chinese sentences in the source: discuss the plan
  with the user and change it together; confirm the final new plan with the user; send the
  user the end-of-call voice message.
\<close>

datatype instructions = DiscussAndAdjust | ConfirmFinalPlan | SayGoodbye

record tool =
  tool_name :: string
  tool_required :: "string list"

datatype message =
    SessionUpdate "tool list" string
  | ResponseCreate instructions

text \<open>
  The constant \<open>reviewCurrentPlan\<close>: \<open>{type: "session.update", session: {tools: [...],
  tool_choice: "auto"}}\<close>. Of each tool the name and the \<open>required\<close> list are kept; the
  descriptions and parameter schemas are static text that no code inspects.
\<close>

definition reviewCurrentPlan :: message where
  "reviewCurrentPlan =
     SessionUpdate
       [\<lparr>tool_name = ''review_current_weekly_plan'', tool_required = [''user_feedback'']\<rparr>,
        \<lparr>tool_name = ''adjust_exercise_plan'',
         tool_required = [''exercises'', ''total_weekly_minutes'']\<rparr>,
        \<lparr>tool_name = ''confirm_final_plan'',
         tool_required = [''confirmed_final_plan'', ''summary'']\<rparr>]
       ''auto''"

text \<open>
  An inbound event is an object with a \<open>type\<close>; a \<open>response.done\<close> event carries
  \<open>response.output\<close>, a list of items with \<open>type\<close>, \<open>name\<close> and the JSON text
  \<open>arguments\<close>. \<open>None\<close> is an absent \<open>response\<close> or \<open>output\<close>.
\<close>

record output_item =
  out_type :: string
  out_name :: string
  arguments :: string

record response =
  resp_output :: "output_item list option"

record event =
  ev_type :: string
  ev_response :: "response option"

text \<open>
  The component's state (\<open>useState\<close>) and refs (\<open>useRef\<close>). A data channel, a peer
  connection and an interval are named by a number; \<open>audioElement\<close> is \<open>None\<close> before
  the element is created and says afterwards whether \<open>srcObject\<close> has been set.
\<close>

record chat =
  speakingTime :: nat
  isSessionActive :: connection_status
  events :: "event list"
  intervalRef :: "nat option"
  dataChannel :: "nat option"
  peerConnection :: "nat option"
  audioElement :: "bool option"
  functionAdded :: bool
  functionCallOutput :: "output_item option"

datatype ready_state = ChConnecting | ChOpen | ChClosed

record channel =
  owner :: nat
  readyState :: ready_state

text \<open>
  A pending \<open>setTimeout\<close> callback is a closure: it keeps the \<open>dataChannel\<close> of the
  render that created it. The third step's callback also arms the silence monitor.
\<close>

record timeout =
  to_delay :: nat
  to_channel :: "nat option"
  to_instructions :: instructions
  to_monitor :: bool

datatype io =
    FetchToken
  | PromptMicrophone
  | PostOffer json string
  | Alert js_error
  | Navigate string

text \<open>
  Everything outside the component: \<open>localStorage\<close> (the stored text is the
  \<open>JSON.stringify\<close> of the value kept here), the peer connections (\<open>True\<close> once closed)
  and data channels created so far, the messages accepted by \<open>send\<close>, the pending
  timeouts, the intervals (\<open>True\<close> while active; interval \<open>i\<close> is at index \<open>i - 1\<close>,
  timer ids start at 1), the armed monitors (each with the \<open>dataChannel\<close> its
  \<open>stopSession\<close> closure sees) and the log of requests, prompts and alerts in the order
  they were made.
\<close>

record world =
  localStorage :: "string \<rightharpoonup> json"
  connections :: "bool list"
  channels :: "channel list"
  sent :: "(nat \<times> message) list"
  timeouts :: "timeout list"
  intervals :: "bool list"
  monitors :: "nat option list"
  io :: "io list"

text \<open>The built-ins the handlers call: \<open>JSON.parse\<close> (\<open>None\<close> when it throws) and
  \<open>new Date(t).toISOString()\<close>.\<close>

record env =
  JSON_parse :: "string \<Rightarrow> json option"
  toISOString :: "int \<Rightarrow> string"

definition channel_state :: "world \<Rightarrow> nat \<Rightarrow> ready_state" where
  "channel_state w ch =
     (if ch < length (channels w) then readyState (channels w ! ch) else ChClosed)"


text \<open>\<open>dataChannel.send(m)\<close> throws unless the channel is open; \<open>dataChannel?.send(m)\<close>
  does nothing when the variable is \<open>null\<close>.\<close>

definition send :: "nat \<Rightarrow> message \<Rightarrow> world \<Rightarrow> js_error + world" where
  "send ch m w =
     (if channel_state w ch = ChOpen then Inr (w\<lparr>sent := sent w @ [(ch, m)]\<rparr>)
      else Inl InvalidStateError)"

fun send_opt :: "nat option \<Rightarrow> message \<Rightarrow> world \<Rightarrow> js_error + world" where
  "send_opt None m w = Inr w"
| "send_opt (Some ch) m w = send ch m w"

definition setTimeout :: "timeout \<Rightarrow> world \<Rightarrow> world" where
  "setTimeout t w = w\<lparr>timeouts := timeouts w @ [t]\<rparr>"

definition setItem :: "string \<Rightarrow> json \<Rightarrow> world \<Rightarrow> world" where
  "setItem k v w = w\<lparr>localStorage := (localStorage w)(k \<mapsto> v)\<rparr>"

definition setInterval :: "world \<Rightarrow> nat \<times> world" where
  "setInterval w = (Suc (length (intervals w)), w\<lparr>intervals := intervals w @ [True]\<rparr>)"

definition clearInterval :: "nat \<Rightarrow> world \<Rightarrow> world" where
  "clearInterval i w = w\<lparr>intervals := (intervals w)[i - 1 := False]\<rparr>"

definition close_channel :: "nat \<Rightarrow> world \<Rightarrow> world" where
  "close_channel ch w =
     w\<lparr>channels := (channels w)[ch := (channels w ! ch)\<lparr>readyState := ChClosed\<rparr>]\<rparr>"

text \<open>Closing a peer connection closes the data channels it owns.\<close>

definition close_connection :: "nat \<Rightarrow> world \<Rightarrow> world" where
  "close_connection pc w =
     w\<lparr>connections := (connections w)[pc := True],
       channels := map (\<lambda>ch. if owner ch = pc then ch\<lparr>readyState := ChClosed\<rparr> else ch)
                     (channels w)\<rparr>"

section \<open>Starting and stopping a session\<close>

text \<open>
  \<open>startSession\<close> awaits, in this order: the token request, the reading of its body, the
  microphone, \<open>createOffer\<close>, \<open>setLocalDescription\<close>, the posting of the offer and the
  reading of the answer, \<open>setRemoteDescription\<close>. The outcomes of these awaits are the
  input; \<open>None\<close> or \<open>False\<close> is a rejected promise. Every throw lands in the one
  \<open>catch\<close>, which sets the status to \<open>DISCONNECTED\<close> and alerts the message.
  \<^verbatim>\<open>
  setIsSessionActive(CONNECTION_STATUS.CONNECTING);
  const tokenResponse = await fetch("/token");
  if (!tokenResponse.ok) { throw new Error('Failed to get token'); }
  const data = await tokenResponse.json();
  if (!data.client_secret?.value) { throw new Error('Invalid token response'); }
  const EPHEMERAL_KEY = data.client_secret.value;
  const ms = await navigator.mediaDevices.getUserMedia({ audio: true })
    .catch(err => { throw new Error('Microphone access denied'); });
  const pc = new RTCPeerConnection();
  \<close>
\<close>

record token_response =
  ok :: bool
  json_body :: "json option"

record negotiation =
  fetch_token :: "token_response option"
  getUserMedia :: bool
  createOffer :: "string option"
  setLocalDescription :: bool
  fetch_sdp :: "string option"
  setRemoteDescription :: bool

text \<open>\<open>data.client_secret?.value\<close>: a \<open>TypeError\<close> when \<open>data\<close> is \<open>null\<close>,
  \<open>undefined\<close> when \<open>client_secret\<close> is missing or \<open>null\<close>.\<close>

definition client_secret_value :: "json \<Rightarrow> js_error + json option" where
  "client_secret_value data =
     (case data of
        JNull \<Rightarrow> Inl TypeError
      | _ \<Rightarrow>
          (case property data ''client_secret'' of
             None \<Rightarrow> Inr None
           | Some JNull \<Rightarrow> Inr None
           | Some client_secret \<Rightarrow> Inr (property client_secret ''value'')))"

definition failed :: "js_error \<Rightarrow> chat \<Rightarrow> world \<Rightarrow> chat \<times> world" where
  "failed error c w = (c\<lparr>isSessionActive := DISCONNECTED\<rparr>, w\<lparr>io := io w @ [Alert error]\<rparr>)"

text \<open>The part of \<open>startSession\<close> after the microphone was granted.\<close>

definition negotiate :: "negotiation \<Rightarrow> json \<Rightarrow> chat \<Rightarrow> world \<Rightarrow> chat \<times> world" where
  "negotiate n EPHEMERAL_KEY c w =
     (let pc = length (connections w);
          w1 = w\<lparr>connections := connections w @ [False]\<rparr>;
          c1 = c\<lparr>audioElement := Some False\<rparr>;
          dc = length (channels w1);
          w2 = w1\<lparr>channels := channels w1 @ [\<lparr>owner = pc, readyState = ChConnecting\<rparr>]\<rparr>;
          c2 = c1\<lparr>dataChannel := Some dc\<rparr>
      in case createOffer n of
           None \<Rightarrow> failed OperationError c2 w2
         | Some sdp \<Rightarrow>
             if \<not> setLocalDescription n then failed OperationError c2 w2
             else
               (let w3 = w2\<lparr>io := io w2 @ [PostOffer EPHEMERAL_KEY sdp]\<rparr>
                in case fetch_sdp n of
                     None \<Rightarrow> failed TypeError c2 w3
                   | Some answer \<Rightarrow>
                       if \<not> setRemoteDescription n then failed OperationError c2 w3
                       else
                         (let c3 = c2\<lparr>peerConnection := Some pc\<rparr>;
                              timer = setInterval w3
                          in (c3\<lparr>intervalRef := Some (fst timer)\<rparr>, snd timer))))"

definition startSession :: "negotiation \<Rightarrow> chat \<Rightarrow> world \<Rightarrow> chat \<times> world" where
  "startSession n c0 w0 =
     (let c = c0\<lparr>isSessionActive := CONNECTING\<rparr>;
          w = w0\<lparr>io := io w0 @ [FetchToken]\<rparr>
      in case fetch_token n of
           None \<Rightarrow> failed TypeError c w
         | Some tokenResponse \<Rightarrow>
             if \<not> ok tokenResponse then failed FailedToGetToken c w
             else
               (case json_body tokenResponse of
                  None \<Rightarrow> failed SyntaxError c w
                | Some data \<Rightarrow>
                    (case client_secret_value data of
                       Inl e \<Rightarrow> failed e c w
                     | Inr None \<Rightarrow> failed InvalidTokenResponse c w
                     | Inr (Some v) \<Rightarrow>
                         if \<not> truthy v then failed InvalidTokenResponse c w
                         else
                           (let w1 = w\<lparr>io := io w @ [PromptMicrophone]\<rparr>
                            in if \<not> getUserMedia n then failed MicrophoneAccessDenied c w1
                               else negotiate n v c w1))))"

text \<open>
  \<^verbatim>\<open>
  async function stopSession() {
    if (dataChannel) { dataChannel.close(); }
    if (peerConnection.current) { peerConnection.current.close(); }
    setIsSessionActive(CONNECTION_STATUS.DISCONNECTED);
    setDataChannel(null);
    peerConnection.current = null;
  }
  \<close>
  \<open>dataChannel\<close> is the state variable as the closure sees it (the first argument);
  \<open>peerConnection\<close> is a ref and is read when the function runs.
\<close>

definition stopSession :: "nat option \<Rightarrow> chat \<Rightarrow> world \<Rightarrow> chat \<times> world" where
  "stopSession dataChannel_seen c w =
     (let w1 = (case dataChannel_seen of Some ch \<Rightarrow> close_channel ch w | None \<Rightarrow> w);
          w2 = (case peerConnection c of Some pc \<Rightarrow> close_connection pc w1 | None \<Rightarrow> w1)
      in (c\<lparr>isSessionActive := DISCONNECTED, dataChannel := None, peerConnection := None\<rparr>, w2))"

text \<open>The cleanup that runs when the component unmounts, the tick of the interval, and the
  \<open>ontrack\<close> handler of the peer connection.\<close>

definition unmount :: "chat \<Rightarrow> world \<Rightarrow> world" where
  "unmount c w =
     (case intervalRef c of
        None \<Rightarrow> w
      | Some i \<Rightarrow> if i = 0 then w else clearInterval i w)"

definition tick :: "chat \<Rightarrow> chat" where
  "tick c = c\<lparr>speakingTime := speakingTime c + 1\<rparr>"

definition ontrack :: "chat \<Rightarrow> chat" where
  "ontrack c = c\<lparr>audioElement := map_option (\<lambda>_. True) (audioElement c)\<rparr>"

text \<open>What the monitor does when it detects silence: \<open>stopSession()\<close>, then navigation.\<close>

definition onSilenceDetected :: "nat option \<Rightarrow> chat \<Rightarrow> world \<Rightarrow> chat \<times> world" where
  "onSilenceDetected dataChannel_seen c w =
     (let s = stopSession dataChannel_seen c w
      in (fst s, (snd s)\<lparr>io := io (snd s) @ [Navigate ''/message'']\<rparr>))"

text \<open>
  A timeout that fires: \<open>dataChannel?.send(...)\<close> on the channel the closure kept and, for
  the third step, the arming of the monitor on \<open>audioElement.current.srcObject\<close>.
\<close>

definition run_timeout :: "chat \<Rightarrow> timeout \<Rightarrow> world \<Rightarrow> world \<times> js_error option" where
  "run_timeout c t w =
     (case send_opt (to_channel t) (ResponseCreate (to_instructions t)) w of
        Inl e \<Rightarrow> (w, Some e)
      | Inr w1 \<Rightarrow>
          if to_monitor t then
            (case audioElement c of
               Some True \<Rightarrow> (w1\<lparr>monitors := monitors w1 @ [to_channel t]\<rparr>, None)
             | _ \<Rightarrow> (w1, Some TypeError))
          else (w1, None))"

definition fire_timeout :: "nat \<Rightarrow> chat \<Rightarrow> world \<Rightarrow> world \<times> js_error option" where
  "fire_timeout i c w =
     (if i < length (timeouts w)
      then run_timeout c (timeouts w ! i)
             (w\<lparr>timeouts := take i (timeouts w) @ drop (Suc i) (timeouts w)\<rparr>)
      else (w, None))"

section \<open>The choreography effect\<close>

text \<open>
  \<^verbatim>\<open>
  useEffect(() => {
    if (!events || events.length === 0) return;
    const firstEvent = events[events.length - 1];
    if (!functionAdded && firstEvent.type === "session.created") {
      dataChannel?.send(JSON.stringify(reviewCurrentPlan));
      setFunctionAdded(true);
    }
    const mostRecentEvent = events[0];
    if (mostRecentEvent.type === "response.done" && mostRecentEvent.response.output) {
      mostRecentEvent.response.output.forEach((output) => {
        if (output.type === "function_call" && output.name === "review_current_weekly_plan") {
          const result = { timestamp: new Date().toISOString(),
                           feedback: JSON.parse(output.arguments) };
          localStorage.setItem('lastReviewPlan', JSON.stringify(result));
          setFunctionCallOutput(output);
          setTimeout(() => { dataChannel?.send(...); }, 500);
        }
        if (output.type === "function_call" && output.name === "adjust_exercise_plan") {
          const planData = JSON.parse(output.arguments);
          console.log(..., { exercises: planData.exercises, ... });
          const adjustment = { timestamp: new Date().toISOString(), ...planData };
          localStorage.setItem('lastExerciseAdjustment', JSON.stringify(adjustment));
          setTimeout(() => { dataChannel?.send(...); }, 500);
        }
        if (output.type === "function_call" && output.name === "confirm_final_plan") {
          const confirmation = { timestamp: new Date().toISOString(),
                                 ...JSON.parse(output.arguments) };
          localStorage.setItem('lastPlanConfirmation', JSON.stringify(confirmation));
          setTimeout(() => { dataChannel?.send(...); /* arm the monitor */ }, 500);
        }
      });
    }
  }, [events, functionAdded, dataChannel]);
  \<close>
  An effect reads the state of the render it belongs to (\<open>r\<close>) and queues state updates;
  the pair it transforms is the state with the updates queued so far, and the world. The
  clock is read once per run (\<open>now\<close>). A throw ends the run and keeps what was done
  before it.
\<close>

definition timestamp :: "env \<Rightarrow> int \<Rightarrow> string \<times> json" where
  "timestamp env now = (''timestamp'', JStr (toISOString env now))"

definition on_review ::
  "env \<Rightarrow> int \<Rightarrow> chat \<Rightarrow> output_item \<Rightarrow> chat \<times> world \<Rightarrow> js_error + chat \<times> world" where
  "on_review env now r out s =
     (if out_type out = ''function_call'' \<and> out_name out = ''review_current_weekly_plan'' then
        (case JSON_parse env (arguments out) of
           None \<Rightarrow> Inl SyntaxError
         | Some feedback \<Rightarrow>
             Inr ((fst s)\<lparr>functionCallOutput := Some out\<rparr>,
                  setTimeout \<lparr>to_delay = 500, to_channel = dataChannel r,
                              to_instructions = DiscussAndAdjust, to_monitor = False\<rparr>
                    (setItem ''lastReviewPlan''
                       (JObj [timestamp env now, (''feedback'', feedback)]) (snd s))))
      else Inr s)"

text \<open>\<open>planData.exercises\<close>, read for the log, throws when the arguments are \<open>null\<close>.\<close>

definition on_adjust ::
  "env \<Rightarrow> int \<Rightarrow> chat \<Rightarrow> output_item \<Rightarrow> chat \<times> world \<Rightarrow> js_error + chat \<times> world" where
  "on_adjust env now r out s =
     (if out_type out = ''function_call'' \<and> out_name out = ''adjust_exercise_plan'' then
        (case JSON_parse env (arguments out) of
           None \<Rightarrow> Inl SyntaxError
         | Some planData \<Rightarrow>
             if planData = JNull then Inl TypeError
             else
               Inr (fst s,
                    setTimeout \<lparr>to_delay = 500, to_channel = dataChannel r,
                                to_instructions = ConfirmFinalPlan, to_monitor = False\<rparr>
                      (setItem ''lastExerciseAdjustment''
                         (spread [timestamp env now] planData) (snd s))))
      else Inr s)"

definition on_confirm ::
  "env \<Rightarrow> int \<Rightarrow> chat \<Rightarrow> output_item \<Rightarrow> chat \<times> world \<Rightarrow> js_error + chat \<times> world" where
  "on_confirm env now r out s =
     (if out_type out = ''function_call'' \<and> out_name out = ''confirm_final_plan'' then
        (case JSON_parse env (arguments out) of
           None \<Rightarrow> Inl SyntaxError
         | Some confirmation \<Rightarrow>
             Inr (fst s,
                  setTimeout \<lparr>to_delay = 500, to_channel = dataChannel r,
                              to_instructions = SayGoodbye, to_monitor = True\<rparr>
                    (setItem ''lastPlanConfirmation''
                       (spread [timestamp env now] confirmation) (snd s))))
      else Inr s)"

text \<open>The body of the \<open>forEach\<close>: the three \<open>if\<close> statements in sequence.\<close>

definition process_output ::
  "env \<Rightarrow> int \<Rightarrow> chat \<Rightarrow> output_item \<Rightarrow> chat \<times> world \<Rightarrow> js_error + chat \<times> world" where
  "process_output env now r out s =
     (case on_review env now r out s of
        Inl e \<Rightarrow> Inl e
      | Inr s1 \<Rightarrow>
          (case on_adjust env now r out s1 of
             Inl e \<Rightarrow> Inl e
           | Inr s2 \<Rightarrow> on_confirm env now r out s2))"

fun forEach ::
  "('a \<Rightarrow> 's \<Rightarrow> js_error + 's) \<Rightarrow> 'a list \<Rightarrow> 's \<Rightarrow> 's \<times> js_error option" where
  "forEach f [] s = (s, None)"
| "forEach f (x # xs) s =
     (case f x s of Inl e \<Rightarrow> (s, Some e) | Inr s' \<Rightarrow> forEach f xs s')"

text \<open>The registration of the tools; \<open>firstEvent\<close> is the oldest event of the log.\<close>

definition register_tools :: "chat \<Rightarrow> chat \<times> world \<Rightarrow> js_error + chat \<times> world" where
  "register_tools r s =
     (if \<not> functionAdded r \<and> ev_type (last (events r)) = ''session.created'' then
        (case send_opt (dataChannel r) reviewCurrentPlan (snd s) of
           Inl e \<Rightarrow> Inl e
         | Inr w \<Rightarrow> Inr ((fst s)\<lparr>functionAdded := True\<rparr>, w))
      else Inr s)"

definition choreography ::
  "env \<Rightarrow> int \<Rightarrow> chat \<Rightarrow> chat \<times> world \<Rightarrow> (chat \<times> world) \<times> js_error option" where
  "choreography env now r s =
     (if events r = [] then (s, None)
      else
        (case register_tools r s of
           Inl e \<Rightarrow> (s, Some e)
         | Inr s1 \<Rightarrow>
             (if ev_type (hd (events r)) = ''response.done'' then
                (case ev_response (hd (events r)) of
                   None \<Rightarrow> (s1, Some TypeError)
                 | Some resp \<Rightarrow>
                     (case resp_output resp of
                        None \<Rightarrow> (s1, None)
                      | Some outs \<Rightarrow> forEach (process_output env now r) outs s1))
              else (s1, None))))"

section \<open>Rendering: which effects run, and until when\<close>

text \<open>
  The two other effects that touch the state:
  \<^verbatim>\<open>
  useEffect(() => {
    if (functionAdded && isSessionActive === CONNECTION_STATUS.CONNECTING) {
      setIsSessionActive(CONNECTION_STATUS.CONNECTED);
    }
  }, [functionAdded, isSessionActive]);

  useEffect(() => {
    if (isSessionActive === CONNECTION_STATUS.DISCONNECTED) {
      setFunctionAdded(false);
      setFunctionCallOutput(null);
    }
  }, [isSessionActive]);
  \<close>
  After a render (\<open>r\<close>, following the render \<open>prev\<close>) the effects run in the order of the
  source, each only if one of its dependencies changed; the updates they queue make the
  next state, which is rendered in turn until no dependency changes. An effect that throws
  ends it: the component is unmounted.
\<close>

definition status_effect :: "chat \<Rightarrow> chat \<Rightarrow> chat" where
  "status_effect r c =
     (if functionAdded r \<and> isSessionActive r = CONNECTING
      then c\<lparr>isSessionActive := CONNECTED\<rparr> else c)"

definition reset_effect :: "chat \<Rightarrow> chat \<Rightarrow> chat" where
  "reset_effect r c =
     (if isSessionActive r = DISCONNECTED
      then c\<lparr>functionAdded := False, functionCallOutput := None\<rparr> else c)"

definition commit ::
  "env \<Rightarrow> int \<Rightarrow> chat \<Rightarrow> chat \<Rightarrow> world \<Rightarrow> (chat \<times> world) \<times> js_error option" where
  "commit env now prev r w =
     (let c1 = (if (functionAdded prev, isSessionActive prev) \<noteq> (functionAdded r, isSessionActive r)
                then status_effect r r else r);
          res = (if (events prev, functionAdded prev, dataChannel prev) \<noteq>
                    (events r, functionAdded r, dataChannel r)
                 then choreography env now r (c1, w) else ((c1, w), None))
      in case snd res of
           Some e \<Rightarrow> res
         | None \<Rightarrow>
             ((if isSessionActive prev \<noteq> isSessionActive r
               then reset_effect r (fst (fst res)) else fst (fst res),
               snd (fst res)), None))"

definition deps :: "chat \<Rightarrow> event list \<times> bool \<times> nat option \<times> connection_status" where
  "deps c = (events c, functionAdded c, dataChannel c, isSessionActive c)"

text \<open>
  Rendering stops: a measure of the pair of the last two renders decreases with every
  commit. The effects leave \<open>events\<close> and \<open>dataChannel\<close> alone, \<open>isSessionActive\<close>
  only moves from \<open>CONNECTING\<close> to \<open>CONNECTED\<close>, and \<open>functionAdded\<close> is only
  reset in the commit that follows a change of \<open>isSessionActive\<close> to \<open>DISCONNECTED\<close>.
\<close>

definition rank :: "chat \<Rightarrow> chat \<Rightarrow> nat" where
  "rank prev r =
     (if deps prev = deps r then 0
      else 1 + (if functionAdded r then 0 else 2) + (if isSessionActive r = CONNECTING then 1 else 0)
             + (if isSessionActive prev \<noteq> isSessionActive r \<and> isSessionActive r = DISCONNECTED
                then 3 else 0))"


lemma on_review_deps: "on_review env now r out s = Inr s' \<Longrightarrow> deps (fst s') = deps (fst s)"
  by (auto simp: on_review_def deps_def split: if_splits option.splits)

lemma on_adjust_deps: "on_adjust env now r out s = Inr s' \<Longrightarrow> deps (fst s') = deps (fst s)"
  by (auto simp: on_adjust_def deps_def split: if_splits option.splits)

lemma on_confirm_deps: "on_confirm env now r out s = Inr s' \<Longrightarrow> deps (fst s') = deps (fst s)"
  by (auto simp: on_confirm_def deps_def split: if_splits option.splits)

lemma process_output_deps:
  "process_output env now r out s = Inr s' \<Longrightarrow> deps (fst s') = deps (fst s)"
  unfolding process_output_def
  by (auto split: sum.splits dest!: on_review_deps on_adjust_deps on_confirm_deps)

lemma forEach_deps:
  "forEach (process_output env now r) outs s = (s', err) \<Longrightarrow> deps (fst s') = deps (fst s)"
proof (induction outs arbitrary: s)
  case Nil
  then show ?case by simp
next
  case (Cons out outs)
  show ?case
  proof (cases "process_output env now r out s")
    case (Inl e)
    with Cons.prems show ?thesis by simp
  next
    case (Inr s1)
    with Cons.prems have "forEach (process_output env now r) outs s1 = (s', err)" by simp
    then have "deps (fst s') = deps (fst s1)" by (rule Cons.IH)
    with process_output_deps[OF Inr] show ?thesis by simp
  qed
qed

lemma register_tools_deps:
  assumes "register_tools r s = Inr s1"
  shows "events (fst s1) = events (fst s)" "dataChannel (fst s1) = dataChannel (fst s)"
    "isSessionActive (fst s1) = isSessionActive (fst s)"
    "functionAdded (fst s1) = functionAdded (fst s) \<or> (\<not> functionAdded r \<and> functionAdded (fst s1))"
  using assms by (auto simp: register_tools_def split: if_splits sum.splits)

lemma choreography_deps:
  assumes "choreography env now r s = (s', err)"
  shows "events (fst s') = events (fst s)" "dataChannel (fst s') = dataChannel (fst s)"
    "isSessionActive (fst s') = isSessionActive (fst s)"
    "functionAdded (fst s') = functionAdded (fst s) \<or> (\<not> functionAdded r \<and> functionAdded (fst s'))"
proof -
  have "events (fst s') = events (fst s) \<and> dataChannel (fst s') = dataChannel (fst s) \<and>
    isSessionActive (fst s') = isSessionActive (fst s) \<and>
    (functionAdded (fst s') = functionAdded (fst s) \<or> (\<not> functionAdded r \<and> functionAdded (fst s')))"
  proof (cases "events r = []")
    case True
    with assms show ?thesis by (simp add: choreography_def)
  next
    case False
    show ?thesis
    proof (cases "register_tools r s")
      case (Inl e)
      with assms False show ?thesis by (simp add: choreography_def)
    next
      case (Inr s1)
      note reg = register_tools_deps[OF Inr]
      have "deps (fst s') = deps (fst s1)"
        using assms False Inr
        by (auto simp: choreography_def split: if_splits option.splits dest: forEach_deps)
      with reg show ?thesis by (auto simp: deps_def)
    qed
  qed
  then show "events (fst s') = events (fst s)" "dataChannel (fst s') = dataChannel (fst s)"
    "isSessionActive (fst s') = isSessionActive (fst s)"
    "functionAdded (fst s') = functionAdded (fst s) \<or> (\<not> functionAdded r \<and> functionAdded (fst s'))"
    by simp_all
qed

lemma commit_rank:
  assumes "deps prev \<noteq> deps r" and "snd (commit env now prev r w) = None"
  shows "rank r (fst (fst (commit env now prev r w))) < rank prev r"
proof -
  define c1 where "c1 = (if (functionAdded prev, isSessionActive prev) \<noteq> (functionAdded r, isSessionActive r)
                then status_effect r r else r)"
  define res where "res = (if (events prev, functionAdded prev, dataChannel prev) \<noteq>
                    (events r, functionAdded r, dataChannel r)
                 then choreography env now r (c1, w) else ((c1, w), None))"
  define c where "c = fst (fst (commit env now prev r w))"
  have c1: "events c1 = events r" "dataChannel c1 = dataChannel r" "functionAdded c1 = functionAdded r"
    "isSessionActive c1 = isSessionActive r \<or>
       (functionAdded r \<and> isSessionActive r = CONNECTING \<and> isSessionActive c1 = CONNECTED)"
    by (auto simp: c1_def status_effect_def)
  have res: "events (fst (fst res)) = events c1" "dataChannel (fst (fst res)) = dataChannel c1"
    "isSessionActive (fst (fst res)) = isSessionActive c1"
    "functionAdded (fst (fst res)) = functionAdded c1 \<or> (\<not> functionAdded r \<and> functionAdded (fst (fst res)))"
    using choreography_deps[of env now r "(c1, w)" "fst res" "snd res"]
    by (auto simp: res_def)
  have unfold: "commit env now prev r w =
      (case snd res of
         Some e \<Rightarrow> res
       | None \<Rightarrow>
           ((if isSessionActive prev \<noteq> isSessionActive r
             then reset_effect r (fst (fst res)) else fst (fst res),
             snd (fst res)), None))"
    unfolding commit_def Let_def res_def c1_def by (rule refl)
  have none: "snd res = None"
    using assms(2) unfolding unfold by (cases "snd res") simp_all
  have c: "c = (if isSessionActive prev \<noteq> isSessionActive r
               then reset_effect r (fst (fst res)) else fst (fst res))"
    unfolding c_def unfold by (simp add: none)
  have "rank r c < rank prev r"
    using assms(1) c1 res unfolding c
    by (auto simp: rank_def deps_def reset_effect_def split: if_splits)
  then show ?thesis by (simp add: c_def)
qed

text \<open>The renders that follow a change of state, up to the stable one or to a throw.\<close>

function settle ::
  "env \<Rightarrow> int \<Rightarrow> chat \<Rightarrow> chat \<Rightarrow> world \<Rightarrow> (chat \<times> world) \<times> js_error option" where
  "settle env now prev r w =
     (if deps prev = deps r then ((r, w), None)
      else if snd (commit env now prev r w) \<noteq> None then commit env now prev r w
      else settle env now r (fst (fst (commit env now prev r w))) (snd (fst (commit env now prev r w))))"
  by pat_completeness auto
termination
  by (relation "measure (\<lambda>(env, now, prev, r, w). rank prev r)") (auto simp: commit_rank case_prod_beta)

declare settle.simps [simp del]

text \<open>
  The listeners the component attaches to its data channel: a message is parsed and put in
  front of the log; the opening of the channel sets the status and empties the log.
  \<^verbatim>\<open>
  dataChannel.addEventListener("message", (e) => {
    setEvents((prev) => [JSON.parse(e.data), ...prev]);
  });
  dataChannel.addEventListener("open", () => {
    setIsSessionActive(CONNECTION_STATUS.CONNECTING);
    setEvents([]);
  });
  \<close>
\<close>

definition message ::
  "env \<Rightarrow> int \<Rightarrow> event \<Rightarrow> chat \<Rightarrow> world \<Rightarrow> (chat \<times> world) \<times> js_error option" where
  "message env now e c w = settle env now c (c\<lparr>events := e # events c\<rparr>) w"

definition channel_open ::
  "env \<Rightarrow> int \<Rightarrow> nat \<Rightarrow> chat \<Rightarrow> world \<Rightarrow> (chat \<times> world) \<times> js_error option" where
  "channel_open env now ch c w =
     settle env now c (c\<lparr>isSessionActive := CONNECTING, events := []\<rparr>)
       (w\<lparr>channels := (channels w)[ch := (channels w ! ch)\<lparr>readyState := ChOpen\<rparr>]\<rparr>)"



text \<open>A sequence of inbound events, each with the time of its arrival; a throw ends it.\<close>

fun deliver ::
  "env \<Rightarrow> (int \<times> event) list \<Rightarrow> chat \<times> world \<Rightarrow> (chat \<times> world) \<times> js_error option" where
  "deliver env [] s = (s, None)"
| "deliver env ((now, e) # rest) s =
     (case message env now e (fst s) (snd s) of
        (s', Some err) \<Rightarrow> (s', Some err)
      | (s', None) \<Rightarrow> deliver env rest s')"


section \<open>Example sessions\<close>

text \<open>
  The state of a freshly mounted page, a negotiation in which every step succeeds, and the
  state it leads to once the data channel has opened. The example environment parses three
  argument texts and prints four instants of 1 January 2025.
\<close>

definition initial_chat :: chat where
  "initial_chat =
     \<lparr>speakingTime = 0, isSessionActive = DISCONNECTED, events = [], intervalRef = None,
      dataChannel = None, peerConnection = None, audioElement = None,
      functionAdded = False, functionCallOutput = None\<rparr>"

definition initial_world :: world where
  "initial_world =
     \<lparr>localStorage = Map.empty, connections = [], channels = [], sent = [], timeouts = [],
      intervals = [], monitors = [], io = []\<rparr>"

definition review_arguments :: string where
  \<open>review_arguments = ''{"user_feedback":"too hard"}''\<close>

definition adjust_arguments :: string where
  \<open>adjust_arguments = ''{"exercises":[],"total_weekly_minutes":90}''\<close>

definition stamped_arguments :: string where
  \<open>stamped_arguments = ''{"timestamp":"1970-01-01T00:00:00.000Z","exercises":[]}''\<close>

definition example_env :: env where
  "example_env =
     \<lparr>JSON_parse = (\<lambda>s.
        if s = review_arguments then Some (JObj [(''user_feedback'', JStr ''too hard'')])
        else if s = adjust_arguments
          then Some (JObj [(''exercises'', JArr []), (''total_weekly_minutes'', JNum 90)])
        else if s = stamped_arguments
          then Some (JObj [(''timestamp'', JStr ''1970-01-01T00:00:00.000Z''),
                           (''exercises'', JArr [])])
        else None),
      toISOString = (\<lambda>t.
        if t = 1735689600000 then ''2025-01-01T00:00:00.000Z''
        else if t = 1735689601000 then ''2025-01-01T00:00:01.000Z''
        else if t = 1735689602000 then ''2025-01-01T00:00:02.000Z''
        else if t = 1735689603000 then ''2025-01-01T00:00:03.000Z''
        else ''1970-01-01T00:00:00.000Z'')\<rparr>"

definition granted :: negotiation where
  "granted =
     \<lparr>fetch_token = Some \<lparr>ok = True,
        json_body = Some (JObj [(''client_secret'', JObj [(''value'', JStr ''ek-123'')])])\<rparr>,
      getUserMedia = True, createOffer = Some ''v=0 offer'', setLocalDescription = True,
      fetch_sdp = Some ''v=0 answer'', setRemoteDescription = True\<rparr>"

definition upstream_error_reply :: negotiation where
  "upstream_error_reply =
     granted\<lparr>fetch_token := Some \<lparr>ok = True,
       json_body = Some (JObj [(''error'', JObj [(''message'', JStr ''Incorrect API key'')])])\<rparr>\<rparr>"

definition token_http_500 :: negotiation where
  "token_http_500 =
     granted\<lparr>fetch_token := Some \<lparr>ok = False,
       json_body = Some (JObj [(''statusCode'', JNum 500),
                               (''error'', JStr ''Internal Server Error'')])\<rparr>\<rparr>"

definition microphone_denied :: negotiation where
  "microphone_denied = granted\<lparr>getUserMedia := False\<rparr>"

definition live_chat :: chat where
  "live_chat =
     \<lparr>speakingTime = 0, isSessionActive = CONNECTING, events = [], intervalRef = Some 1,
      dataChannel = Some 0, peerConnection = Some 0, audioElement = Some False,
      functionAdded = False, functionCallOutput = None\<rparr>"

definition live_world :: world where
  "live_world =
     \<lparr>localStorage = Map.empty, connections = [False],
      channels = [\<lparr>owner = 0, readyState = ChOpen\<rparr>], sent = [], timeouts = [],
      intervals = [True], monitors = [],
      io = [FetchToken, PromptMicrophone, PostOffer (JStr ''ek-123'') ''v=0 offer'']\<rparr>"

definition session_created :: event where
  "session_created = \<lparr>ev_type = ''session.created'', ev_response = None\<rparr>"

definition session_updated :: event where
  "session_updated = \<lparr>ev_type = ''session.updated'', ev_response = None\<rparr>"

definition function_call_done :: "string \<Rightarrow> string \<Rightarrow> event" where
  "function_call_done name args =
     \<lparr>ev_type = ''response.done'',
      ev_response = Some \<lparr>resp_output =
        Some [\<lparr>out_type = ''function_call'', out_name = name, arguments = args\<rparr>]\<rparr>\<rparr>"

text \<open>A session in which the review is reported, then the adjustment, then the review once
  more; and one that is stopped while the follow-up of the review is still pending.\<close>

definition duplicate_run :: "(chat \<times> world) \<times> js_error option" where
  "duplicate_run =
     deliver example_env
       [(1735689600000, session_created),
        (1735689601000, function_call_done ''review_current_weekly_plan'' review_arguments),
        (1735689602000, function_call_done ''adjust_exercise_plan'' adjust_arguments),
        (1735689603000, function_call_done ''review_current_weekly_plan'' review_arguments)]
       (live_chat, live_world)"

definition review_run :: "chat \<times> world" where
  "review_run =
     fst (deliver example_env
       [(1735689600000, session_created),
        (1735689601000, function_call_done ''review_current_weekly_plan'' review_arguments)]
       (live_chat, live_world))"

definition stopped_review_run :: "chat \<times> world" where
  "stopped_review_run = stopSession (dataChannel (fst review_run)) (fst review_run) (snd review_run)"

definition stamped_run :: "(chat \<times> world) \<times> js_error option" where
  "stamped_run =
     deliver example_env
       [(1735689600000, session_created),
        (1735689601000, function_call_done ''adjust_exercise_plan'' stamped_arguments)]
       (live_chat, live_world)"


text \<open>
  A \<open>response.done\<close> event whose output holds two calls; a start whose \<open>createOffer\<close>
  is rejected; and a second session on the same page: the first session receives
  \<open>session.created\<close> and is stopped, the page stays mounted, a new session starts, its
  channel opens and \<open>session.created\<close> arrives.
\<close>

definition review_call :: output_item where
  "review_call =
     \<lparr>out_type = ''function_call'', out_name = ''review_current_weekly_plan'',
      arguments = review_arguments\<rparr>"

definition adjust_call :: output_item where
  "adjust_call =
     \<lparr>out_type = ''function_call'', out_name = ''adjust_exercise_plan'',
      arguments = adjust_arguments\<rparr>"

definition review_and_adjust_done :: event where
  "review_and_adjust_done =
     \<lparr>ev_type = ''response.done'',
      ev_response = Some \<lparr>resp_output = Some [review_call, adjust_call]\<rparr>\<rparr>"





section \<open>Properties of the server\<close>

text \<open>
  C9. Whenever the upstream request resolves (with whatever status, 2xx or not) and its body
  can be read, \<open>/token\<close> answers with status 200 and forwards the upstream body, so two
  upstream responses that differ only in status give the same reply.
\<close>

theorem token_route_always_200:
  "token_route env (Inr config) (\<lambda>_. Inr \<lparr>up_status = s, up_text = Inr b\<rparr>) request =
     Inr \<lparr>status = 200, content_type = ''application/json'', body = b\<rparr>
   \<and> token_route env (Inr config) (\<lambda>_. Inr \<lparr>up_status = s, up_text = Inr b\<rparr>) request =
     token_route env (Inr config) (\<lambda>_. Inr \<lparr>up_status = s', up_text = Inr b\<rparr>) request"
  by (simp add: token_route_def)

text \<open>
  C10. The body of \<open>GET /api-env\<close> carries the value of the environment variable
  \<open>OPENAI_API_KEY\<close>, whatever the request is: the handler never looks at the request, so
  no credential is asked of the requester.
\<close>

theorem api_env_exposes_key:
  "map_of (api_env env request) ''OPENAI_API_KEY'' = Some (env ''OPENAI_API_KEY'')
   \<and> api_env env request = api_env env request'"
  by (simp add: api_env_def)

section \<open>Properties of the silence monitor\<close>












section \<open>Properties of starting and stopping\<close>

text \<open>
  C4. When the token request answers with a status that is not a success, or with a body
  that is not JSON or has no \<open>client_secret.value\<close>, \<open>startSession\<close> ends in the
  \<open>catch\<close> block: the error is alerted to the user, the status is \<open>DISCONNECTED\<close>, and
  nothing else has happened since the token request: no microphone prompt, no peer
  connection, no data channel. The error is \<open>Failed to get token\<close> for the status,
  \<open>Invalid token response\<close> for the missing field (the platform's own error when the
  body is not JSON or is \<open>null\<close>).
\<close>

theorem token_failure_aborts_start:
  assumes "fetch_token n = Some t"
    and "\<not> ok t \<or> json_body t = None \<or>
         (\<exists>data. json_body t = Some data \<and>
            (\<forall>cs. property data ''client_secret'' = Some cs \<longrightarrow> property cs ''value'' = None))"
  shows "startSession n c w =
           (c\<lparr>isSessionActive := DISCONNECTED\<rparr>,
            w\<lparr>io := io w @
               [FetchToken,
                Alert (if \<not> ok t then FailedToGetToken
                       else if json_body t = None then SyntaxError
                       else if json_body t = Some JNull then TypeError
                       else InvalidTokenResponse)]\<rparr>)"
proof (cases "ok t")
  case False
  with assms(1) show ?thesis by (simp add: startSession_def failed_def)
next
  case True
  show ?thesis
  proof (cases "json_body t")
    case None
    with True assms(1) show ?thesis by (simp add: startSession_def failed_def)
  next
    case (Some data)
    with True assms(2)
    have lacking: "property data ''client_secret'' = Some cs \<Longrightarrow> property cs ''value'' = None" for cs
      by simp
    show ?thesis
    proof (cases "data = JNull")
      case True
      with \<open>ok t\<close> Some assms(1) show ?thesis
        by (simp add: startSession_def failed_def client_secret_value_def)
    next
      case False
      have "client_secret_value data = Inr None"
      proof (cases "property data ''client_secret''")
        case None
        with False show ?thesis by (cases data) (simp_all add: client_secret_value_def)
      next
        case (Some cs)
        with False lacking[OF Some] show ?thesis
          by (cases data; cases cs) (simp_all add: client_secret_value_def)
      qed
      with \<open>ok t\<close> Some False assms(1) show ?thesis
        by (simp add: startSession_def failed_def)
    qed
  qed
qed

theorem token_failure_aborts_start_witness:
  "fetch_token upstream_error_reply =
     Some \<lparr>ok = True,
       json_body = Some (JObj [(''error'', JObj [(''message'', JStr ''Incorrect API key'')])])\<rparr>
   \<and> property (JObj [(''error'', JObj [(''message'', JStr ''Incorrect API key'')])])
         ''client_secret'' = None
   \<and> startSession upstream_error_reply initial_chat initial_world =
       (initial_chat, initial_world\<lparr>io := [FetchToken, Alert InvalidTokenResponse]\<rparr>)
   \<and> fetch_token token_http_500 =
     Some \<lparr>ok = False,
       json_body = Some (JObj [(''statusCode'', JNum 500),
                               (''error'', JStr ''Internal Server Error'')])\<rparr>
   \<and> startSession token_http_500 initial_chat initial_world =
       (initial_chat, initial_world\<lparr>io := [FetchToken, Alert FailedToGetToken]\<rparr>)"
proof -
  let ?body = "JObj [(''error'', JObj [(''message'', JStr ''Incorrect API key'')])]"
  let ?t = "\<lparr>ok = True, json_body = Some ?body\<rparr>"
  let ?t500 = "\<lparr>ok = False,
       json_body = Some (JObj [(''statusCode'', JNum 500),
                               (''error'', JStr ''Internal Server Error'')])\<rparr>"
  have f: "fetch_token upstream_error_reply = Some ?t"
    by (simp add: upstream_error_reply_def granted_def)
  have p: "property ?body ''client_secret'' = None"
    by (simp add: property_def)
  have lacking: "\<not> ok ?t \<or> json_body ?t = None \<or>
         (\<exists>data. json_body ?t = Some data \<and>
            (\<forall>cs. property data ''client_secret'' = Some cs \<longrightarrow> property cs ''value'' = None))"
    using p by simp
  have g: "fetch_token token_http_500 = Some ?t500"
    by (simp add: token_http_500_def granted_def)
  have refused: "\<not> ok ?t500 \<or> json_body ?t500 = None \<or>
         (\<exists>data. json_body ?t500 = Some data \<and>
            (\<forall>cs. property data ''client_secret'' = Some cs \<longrightarrow> property cs ''value'' = None))"
    by simp
  from token_failure_aborts_start[OF f lacking, of initial_chat initial_world]
    token_failure_aborts_start[OF g refused, of initial_chat initial_world] f g p
  show ?thesis
    by (simp add: initial_chat_def initial_world_def)
qed

text \<open>
  C5, as the code has it. The token is requested first. When it has been obtained and the
  microphone is then denied, \<open>startSession\<close> fails with \<open>Microphone access denied\<close>,
  alerted to the user, before a peer connection or a data channel is created and before the
  offer is posted; the status is \<open>DISCONNECTED\<close>.
\<close>

theorem microphone_denied_after_token:
  assumes "fetch_token n = Some t" and "ok t" and "json_body t = Some data"
    and "client_secret_value data = Inr (Some v)" and "truthy v" and "\<not> getUserMedia n"
  shows "startSession n c w =
           (c\<lparr>isSessionActive := DISCONNECTED\<rparr>,
            w\<lparr>io := io w @ [FetchToken, PromptMicrophone, Alert MicrophoneAccessDenied]\<rparr>)"
  using assms by (simp add: startSession_def failed_def)

theorem microphone_denied_after_token_witness:
  "fetch_token microphone_denied =
     Some \<lparr>ok = True,
       json_body = Some (JObj [(''client_secret'', JObj [(''value'', JStr ''ek-123'')])])\<rparr>
   \<and> client_secret_value (JObj [(''client_secret'', JObj [(''value'', JStr ''ek-123'')])]) =
       Inr (Some (JStr ''ek-123''))
   \<and> \<not> getUserMedia microphone_denied
   \<and> startSession microphone_denied initial_chat initial_world =
       (initial_chat,
        initial_world\<lparr>io := [FetchToken, PromptMicrophone, Alert MicrophoneAccessDenied]\<rparr>)"
proof -
  let ?body = "JObj [(''client_secret'', JObj [(''value'', JStr ''ek-123'')])]"
  let ?t = "\<lparr>ok = True, json_body = Some ?body\<rparr>"
  have f: "fetch_token microphone_denied = Some ?t"
    by (simp add: microphone_denied_def granted_def)
  have s: "client_secret_value ?body = Inr (Some (JStr ''ek-123''))"
    by (simp add: client_secret_value_def property_def)
  have m: "\<not> getUserMedia microphone_denied"
    by (simp add: microphone_denied_def)
  from microphone_denied_after_token[OF f _ _ s _ m, of initial_chat initial_world] f s m
  show ?thesis
    by (simp add: initial_chat_def initial_world_def)
qed

text \<open>
  C5, as stated, fails: with the microphone denied, the token request has been made, and it
  was made before the microphone was asked for.
\<close>

theorem token_requested_before_microphone:
  "\<not> getUserMedia microphone_denied
   \<and> io (snd (startSession microphone_denied initial_chat initial_world)) =
       [FetchToken, PromptMicrophone, Alert MicrophoneAccessDenied]"
  by (simp add: startSession_def failed_def microphone_denied_def granted_def
      client_secret_value_def property_def initial_world_def)













section \<open>Properties of the choreography\<close>

text \<open>
  Rendering, step by step; and what the delivery of an event amounts to once the
  registration can no longer happen: one run of the choreography effect.
\<close>

lemma settle_stable: "deps prev = deps r \<Longrightarrow> settle env now prev r w = ((r, w), None)"
  by (simp add: settle.simps)

lemma settle_crash:
  "deps prev \<noteq> deps r \<Longrightarrow> snd (commit env now prev r w) \<noteq> None \<Longrightarrow>
   settle env now prev r w = commit env now prev r w"
  by (subst settle.simps) simp

lemma settle_step:
  "deps prev \<noteq> deps r \<Longrightarrow> commit env now prev r w = ((c, w'), None) \<Longrightarrow>
   settle env now prev r w = settle env now r c w'"
  by (subst settle.simps) simp

lemma register_tools_skip:
  "functionAdded r \<or> ev_type (last (events r)) \<noteq> ''session.created'' \<Longrightarrow>
   register_tools r s = Inr s"
  by (auto simp: register_tools_def)

lemma choreography_skip_deps:
  assumes "functionAdded r \<or> ev_type (last (events r)) \<noteq> ''session.created''"
    and "choreography env now r s = (s', err)"
  shows "deps (fst s') = deps (fst s)"
proof (cases "events r = []")
  case True
  with assms(2) show ?thesis by (simp add: choreography_def)
next
  case False
  with assms(2) register_tools_skip[OF assms(1)] show ?thesis
    by (auto simp: choreography_def split: if_splits option.splits dest: forEach_deps)
qed

lemma message_after_registration:
  assumes "functionAdded c \<or> ev_type (last (e # events c)) \<noteq> ''session.created''"
  shows "message env now e c w =
         choreography env now (c\<lparr>events := e # events c\<rparr>) (c\<lparr>events := e # events c\<rparr>, w)"
proof -
  let ?r = "c\<lparr>events := e # events c\<rparr>"
  obtain s' err where res: "choreography env now ?r (?r, w) = (s', err)"
    by (cases "choreography env now ?r (?r, w)")
  have skip: "functionAdded ?r \<or> ev_type (last (events ?r)) \<noteq> ''session.created''"
    using assms by simp
  have same: "deps (fst s') = deps ?r"
    using choreography_skip_deps[OF skip res] by simp
  have changed: "deps c \<noteq> deps ?r"
    by (simp add: deps_def)
  have com: "commit env now c ?r w = (s', err)"
    by (cases err) (simp_all add: commit_def res)
  show ?thesis
  proof (cases err)
    case None
    have "commit env now c ?r w = ((fst s', snd s'), None)"
      using com None by simp
    then have "settle env now c ?r w = settle env now ?r (fst s') (snd s')"
      by (rule settle_step[OF changed])
    also have "\<dots> = ((fst s', snd s'), None)"
      using same by (simp add: settle_stable)
    finally show ?thesis
      using None by (simp add: message_def res)
  next
    case (Some e')
    then have "settle env now c ?r w = commit env now c ?r w"
      using com by (intro settle_crash[OF changed]) simp
    then show ?thesis
      by (simp add: message_def res com)
  qed
qed





lemma message_first_created:
  assumes "events c = []" and "\<not> functionAdded c" and "dataChannel c = Some ch"
    and "channel_state w ch = ChOpen" and "ev_type e = ''session.created''"
  shows "message env now e c w =
         ((c\<lparr>events := [e], functionAdded := True,
             isSessionActive :=
               (if isSessionActive c = CONNECTING then CONNECTED else isSessionActive c)\<rparr>,
           w\<lparr>sent := sent w @ [(ch, reviewCurrentPlan)]\<rparr>), None)"
proof -
  let ?w = "w\<lparr>sent := sent w @ [(ch, reviewCurrentPlan)]\<rparr>"
  let ?r1 = "c\<lparr>events := [e]\<rparr>"
  let ?r2 = "c\<lparr>events := [e], functionAdded := True\<rparr>"
  let ?r3 = "?r2\<lparr>isSessionActive :=
               (if isSessionActive c = CONNECTING then CONNECTED else isSessionActive c)\<rparr>"
  have ch1: "choreography env now ?r1 (?r1, w) = ((?r2, ?w), None)"
    using assms by (simp add: choreography_def register_tools_def send_def)
  have d1: "deps c \<noteq> deps ?r1"
    using assms(1) by (simp add: deps_def)
  have c1: "commit env now c ?r1 w = ((?r2, ?w), None)"
    using assms(1) by (simp add: commit_def ch1)
  have ch2: "choreography env now ?r2 (s, ?w) = ((s, ?w), None)" for s
    using assms(5) by (simp add: choreography_def register_tools_def)
  have d2: "deps ?r1 \<noteq> deps ?r2"
    using assms(2) by (simp add: deps_def)
  have c2: "commit env now ?r1 ?r2 ?w = ((?r3, ?w), None)"
    using assms(2) by (simp add: commit_def ch2 status_effect_def)
  have step12: "settle env now c ?r1 w = settle env now ?r2 ?r3 ?w"
    using settle_step[OF d1 c1] settle_step[OF d2 c2] by simp
  have last: "settle env now ?r2 ?r3 ?w = ((?r3, ?w), None)"
  proof (cases "isSessionActive c = CONNECTING")
    case False
    then have "deps ?r2 = deps ?r3" by (simp add: deps_def)
    then show ?thesis by (rule settle_stable)
  next
    case True
    then have d3: "deps ?r2 \<noteq> deps ?r3" by (simp add: deps_def)
    have c3: "commit env now ?r2 ?r3 ?w = ((?r3, ?w), None)"
      using True by (simp add: commit_def status_effect_def reset_effect_def)
    show ?thesis
      using settle_step[OF d3 c3] by (simp add: settle_stable)
  qed
  show ?thesis
    unfolding message_def using assms(1) step12 last by simp
qed



text \<open>The example state is the one a successful start reaches when its channel opens.\<close>

lemma live_reachable:
  "channel_open example_env 1735689600000 0
     (fst (startSession granted initial_chat initial_world))
     (snd (startSession granted initial_chat initial_world)) = ((live_chat, live_world), None)"
proof -
  have start: "startSession granted initial_chat initial_world =
      (live_chat, live_world\<lparr>channels := [\<lparr>owner = 0, readyState = ChConnecting\<rparr>]\<rparr>)"
    by (simp add: startSession_def granted_def initial_chat_def initial_world_def
        client_secret_value_def property_def negotiate_def Let_def setInterval_def
        live_chat_def live_world_def)
  have "deps live_chat = deps (live_chat\<lparr>isSessionActive := CONNECTING, events := []\<rparr>)"
    by (simp add: live_chat_def deps_def)
  then show ?thesis
    by (simp add: start channel_open_def settle_stable) (simp add: live_chat_def live_world_def)
qed

lemmas example_defs =
  live_chat_def live_world_def example_env_def session_created_def session_updated_def
  function_call_done_def review_arguments_def adjust_arguments_def stamped_arguments_def

lemmas handler_defs =
  choreography_def register_tools_def process_output_def on_review_def on_adjust_def
  on_confirm_def setTimeout_def setItem_def timestamp_def spread_def channel_state_def

lemma review_run_eq:
  "review_run =
     (live_chat\<lparr>events := [function_call_done ''review_current_weekly_plan'' review_arguments,
                           session_created],
        functionAdded := True, isSessionActive := CONNECTED,
        functionCallOutput := Some \<lparr>out_type = ''function_call'',
          out_name = ''review_current_weekly_plan'', arguments = review_arguments\<rparr>\<rparr>,
      live_world\<lparr>sent := [(0, reviewCurrentPlan)],
        localStorage := [''lastReviewPlan'' \<mapsto>
          JObj [(''timestamp'', JStr ''2025-01-01T00:00:01.000Z''),
                (''feedback'', JObj [(''user_feedback'', JStr ''too hard'')])]],
        timeouts := [\<lparr>to_delay = 500, to_channel = Some 0,
          to_instructions = DiscussAndAdjust, to_monitor = False\<rparr>]\<rparr>)"
  unfolding review_run_def
  by (simp add: message_first_created message_after_registration example_defs handler_defs)

lemma duplicate_run_world:
  "snd duplicate_run = None"
  "sent (snd (fst duplicate_run)) = [(0, reviewCurrentPlan)]"
  "channels (snd (fst duplicate_run)) = [\<lparr>owner = 0, readyState = ChOpen\<rparr>]"
  "timeouts (snd (fst duplicate_run)) =
     [\<lparr>to_delay = 500, to_channel = Some 0, to_instructions = DiscussAndAdjust, to_monitor = False\<rparr>,
      \<lparr>to_delay = 500, to_channel = Some 0, to_instructions = ConfirmFinalPlan, to_monitor = False\<rparr>,
      \<lparr>to_delay = 500, to_channel = Some 0, to_instructions = DiscussAndAdjust, to_monitor = False\<rparr>]"
  "localStorage (snd (fst duplicate_run)) ''lastReviewPlan'' =
     Some (JObj [(''timestamp'', JStr ''2025-01-01T00:00:03.000Z''),
                 (''feedback'', JObj [(''user_feedback'', JStr ''too hard'')])])"
  unfolding duplicate_run_def
  by (simp_all add: message_first_created message_after_registration example_defs handler_defs)

lemma forEach_append:
  "forEach f (xs @ ys) s =
     (case forEach f xs s of (s', None) \<Rightarrow> forEach f ys s' | (s', Some e) \<Rightarrow> (s', Some e))"
  by (induction xs arbitrary: s) (simp_all split: sum.splits)

lemma message_response_done:
  assumes "functionAdded c" and "ev_type e = ''response.done''"
    and "ev_response e = Some resp" and "resp_output resp = Some outs"
  shows "message env now e c w =
         forEach (process_output env now (c\<lparr>events := e # events c\<rparr>)) outs
           (c\<lparr>events := e # events c\<rparr>, w)"
  using assms by (simp add: message_after_registration choreography_def register_tools_def)

lemma process_output_timeouts:
  "process_output env now r out s = Inr s' \<Longrightarrow>
   \<exists>ts. timeouts (snd s') = timeouts (snd s) @ ts"
  by (auto simp: process_output_def on_review_def on_adjust_def on_confirm_def setTimeout_def
      setItem_def split: sum.splits if_splits option.splits)

lemma forEach_timeouts:
  "\<exists>ts. timeouts (snd (fst (forEach (process_output env now r) outs s))) =
     timeouts (snd s) @ ts"
proof (induction outs arbitrary: s)
  case Nil
  show ?case by simp
next
  case (Cons out outs)
  show ?case
  proof (cases "process_output env now r out s")
    case (Inl e)
    then show ?thesis by simp
  next
    case (Inr s1)
    from process_output_timeouts[OF Inr] obtain ts1
      where 1: "timeouts (snd s1) = timeouts (snd s) @ ts1" by blast
    from Cons[of s1] obtain ts2
      where 2: "timeouts (snd (fst (forEach (process_output env now r) outs s1))) =
        timeouts (snd s1) @ ts2" by blast
    show ?thesis
      using Inr 1 2 by simp
  qed
qed

text \<open>
  C1, as the code has it. The handler keeps no record of the steps it has handled. In every
  state in which the tools are registered, so also after a later step, take a
  \<open>response.done\<close> event and an item of its output that is a function call of one of
  the three names, with arguments that parse (not \<open>null\<close> for the adjustment), the items
  before it (\<open>pre\<close>) having been processed without a throw. The item is handled like the
  first call of its name: the Cached Result of that step is written again, over the earlier
  one, and one more follow-up send is scheduled, which stays pending whatever the later
  items (\<open>post\<close>) do; the later items are then processed in turn.
\<close>

theorem function_call_handled_in_every_state:
  assumes "functionAdded c"
    and "ev_type e = ''response.done''" and "ev_response e = Some resp"
    and "resp_output resp = Some (pre @ item # post)"
    and "forEach (process_output env now (c\<lparr>events := e # events c\<rparr>)) pre
           (c\<lparr>events := e # events c\<rparr>, w) = (s, None)"
    and "out_type item = ''function_call''" and "JSON_parse env (arguments item) = Some payload"
  shows "(out_name item = ''review_current_weekly_plan'' \<longrightarrow>
            message env now e c w =
              forEach (process_output env now (c\<lparr>events := e # events c\<rparr>)) post
                ((fst s)\<lparr>functionCallOutput := Some item\<rparr>,
                 setTimeout \<lparr>to_delay = 500, to_channel = dataChannel c,
                             to_instructions = DiscussAndAdjust, to_monitor = False\<rparr>
                   (setItem ''lastReviewPlan''
                      (JObj [timestamp env now, (''feedback'', payload)]) (snd s)))
            \<and> (\<exists>ts. timeouts (snd (fst (message env now e c w))) =
                  timeouts (snd s) @
                    \<lparr>to_delay = 500, to_channel = dataChannel c,
                     to_instructions = DiscussAndAdjust, to_monitor = False\<rparr> # ts))
       \<and> (out_name item = ''adjust_exercise_plan'' \<and> payload \<noteq> JNull \<longrightarrow>
            message env now e c w =
              forEach (process_output env now (c\<lparr>events := e # events c\<rparr>)) post
                (fst s,
                 setTimeout \<lparr>to_delay = 500, to_channel = dataChannel c,
                             to_instructions = ConfirmFinalPlan, to_monitor = False\<rparr>
                   (setItem ''lastExerciseAdjustment''
                      (spread [timestamp env now] payload) (snd s)))
            \<and> (\<exists>ts. timeouts (snd (fst (message env now e c w))) =
                  timeouts (snd s) @
                    \<lparr>to_delay = 500, to_channel = dataChannel c,
                     to_instructions = ConfirmFinalPlan, to_monitor = False\<rparr> # ts))
       \<and> (out_name item = ''confirm_final_plan'' \<longrightarrow>
            message env now e c w =
              forEach (process_output env now (c\<lparr>events := e # events c\<rparr>)) post
                (fst s,
                 setTimeout \<lparr>to_delay = 500, to_channel = dataChannel c,
                             to_instructions = SayGoodbye, to_monitor = True\<rparr>
                   (setItem ''lastPlanConfirmation''
                      (spread [timestamp env now] payload) (snd s)))
            \<and> (\<exists>ts. timeouts (snd (fst (message env now e c w))) =
                  timeouts (snd s) @
                    \<lparr>to_delay = 500, to_channel = dataChannel c,
                     to_instructions = SayGoodbye, to_monitor = True\<rparr> # ts))"
proof -
  let ?r = "c\<lparr>events := e # events c\<rparr>"
  have msg: "message env now e c w =
      (case process_output env now ?r item s of
         Inl err \<Rightarrow> (s, Some err)
       | Inr s' \<Rightarrow> forEach (process_output env now ?r) post s')"
    using message_response_done[OF assms(1-4), of env now w] assms(5)
    by (simp add: forEach_append)
  have later: "\<exists>ts. timeouts (snd (fst (forEach (process_output env now ?r) post
        (c', setTimeout t w')))) = timeouts w' @ t # ts" for c' t w'
    using forEach_timeouts[of env now ?r post "(c', setTimeout t w')"]
    by (simp add: setTimeout_def)
  have stored: "timeouts (setItem k v w') = timeouts w'" for k v w'
    by (simp add: setItem_def)
  show ?thesis
    unfolding msg using assms(6,7) later[where w' = "setItem k v (snd s)" for k v]
    by (simp add: process_output_def on_review_def on_adjust_def on_confirm_def stored)
qed

theorem function_call_handled_in_every_state_witness:
  "functionAdded (fst review_run)
   \<and> ev_type review_and_adjust_done = ''response.done''
   \<and> ev_response review_and_adjust_done =
       Some \<lparr>resp_output = Some ([] @ review_call # [adjust_call])\<rparr>
   \<and> out_type review_call = ''function_call''
   \<and> out_name review_call = ''review_current_weekly_plan''
   \<and> JSON_parse example_env (arguments review_call) =
       Some (JObj [(''user_feedback'', JStr ''too hard'')])
   \<and> timeouts (snd (fst (message example_env 1735689603000 review_and_adjust_done
         (fst review_run) (snd review_run)))) =
       [\<lparr>to_delay = 500, to_channel = Some 0, to_instructions = DiscussAndAdjust,
         to_monitor = False\<rparr>,
        \<lparr>to_delay = 500, to_channel = Some 0, to_instructions = DiscussAndAdjust,
         to_monitor = False\<rparr>,
        \<lparr>to_delay = 500, to_channel = Some 0, to_instructions = ConfirmFinalPlan,
         to_monitor = False\<rparr>]
   \<and> localStorage (snd (fst (message example_env 1735689603000 review_and_adjust_done
         (fst review_run) (snd review_run)))) ''lastReviewPlan'' =
       Some (JObj [(''timestamp'', JStr ''2025-01-01T00:00:03.000Z''),
                   (''feedback'', JObj [(''user_feedback'', JStr ''too hard'')])])"
proof -
  let ?r = "(fst review_run)\<lparr>events := review_and_adjust_done # events (fst review_run)\<rparr>"
  have h: "functionAdded (fst review_run)"
    "ev_type review_and_adjust_done = ''response.done''"
    "ev_response review_and_adjust_done =
       Some \<lparr>resp_output = Some ([] @ review_call # [adjust_call])\<rparr>"
    "resp_output \<lparr>resp_output = Some ([] @ review_call # [adjust_call])\<rparr> =
       Some ([] @ review_call # [adjust_call])"
    "forEach (process_output example_env 1735689603000 ?r) [] (?r, snd review_run) =
       ((?r, snd review_run), None)"
    "out_type review_call = ''function_call''"
    "JSON_parse example_env (arguments review_call) =
       Some (JObj [(''user_feedback'', JStr ''too hard'')])"
    by (simp_all add: review_run_eq review_and_adjust_done_def review_call_def example_env_def)
  have n: "out_name review_call = ''review_current_weekly_plan''"
    by (simp add: review_call_def)
  from function_call_handled_in_every_state[OF h] n h
  show ?thesis
    by (simp add: review_run_eq review_call_def adjust_call_def process_output_def
        on_review_def on_adjust_def on_confirm_def setTimeout_def setItem_def timestamp_def
        spread_def live_chat_def live_world_def example_env_def review_arguments_def
        adjust_arguments_def)
qed

text \<open>
  C1, as stated, fails. After the review and the adjustment have been handled, a second
  \<open>response.done\<close> with the review call is processed without error: the Cached Result
  under \<open>lastReviewPlan\<close> now carries the time of the duplicate, two follow-ups of the
  review are pending, and when they fire the instruction is sent twice.
\<close>

theorem duplicate_review_handled_twice:
  "snd duplicate_run = None
   \<and> localStorage (snd (fst duplicate_run)) ''lastReviewPlan'' =
       Some (JObj [(''timestamp'', JStr ''2025-01-01T00:00:03.000Z''),
                   (''feedback'', JObj [(''user_feedback'', JStr ''too hard'')])])
   \<and> timeouts (snd (fst duplicate_run)) =
       [\<lparr>to_delay = 500, to_channel = Some 0, to_instructions = DiscussAndAdjust,
         to_monitor = False\<rparr>,
        \<lparr>to_delay = 500, to_channel = Some 0, to_instructions = ConfirmFinalPlan,
         to_monitor = False\<rparr>,
        \<lparr>to_delay = 500, to_channel = Some 0, to_instructions = DiscussAndAdjust,
         to_monitor = False\<rparr>]
   \<and> sent (fst (fire_timeout 1 (fst (fst duplicate_run))
         (fst (fire_timeout 0 (fst (fst duplicate_run)) (snd (fst duplicate_run)))))) =
       [(0, reviewCurrentPlan), (0, ResponseCreate DiscussAndAdjust),
        (0, ResponseCreate DiscussAndAdjust)]"
  by (simp add: duplicate_run_world fire_timeout_def run_timeout_def send_def channel_state_def)








lemma stopSession_sent: "sent (snd (stopSession dc c w)) = sent w"
  by (simp add: stopSession_def Let_def close_channel_def close_connection_def
      split: option.splits)





text \<open>
  C7. The session receives the review call, which schedules the follow-up, and is stopped
  before the timeout fires. The callback kept the data channel of the render that created
  it: although the component now holds no channel, the callback calls \<open>send\<close> on the
  closed one, which throws.
\<close>

theorem delayed_send_after_stop:
  "timeouts (snd stopped_review_run) =
     [\<lparr>to_delay = 500, to_channel = Some 0, to_instructions = DiscussAndAdjust,
       to_monitor = False\<rparr>]
   \<and> dataChannel (fst stopped_review_run) = None
   \<and> channel_state (snd stopped_review_run) 0 = ChClosed
   \<and> snd (fire_timeout 0 (fst stopped_review_run) (snd stopped_review_run)) =
       Some InvalidStateError"
  unfolding stopped_review_run_def review_run_eq
  by (simp add: stopSession_def Let_def close_channel_def close_connection_def
      fire_timeout_def run_timeout_def send_def channel_state_def live_chat_def live_world_def)

section \<open>Properties of the result cache\<close>

lemma property_spread_timestamp:
  "map_of kvs ''timestamp'' = None \<Longrightarrow>
   property (spread [timestamp env now] (JObj kvs)) ''timestamp'' =
     Some (JStr (toISOString env now))"
  by (simp add: property_def spread_def timestamp_def AList.merge_conv' map_add_def)

lemma property_spread_other:
  "k \<noteq> ''timestamp'' \<Longrightarrow>
   property (spread [timestamp env now] (JObj kvs)) k = map_of kvs k"
  by (simp add: property_def spread_def timestamp_def AList.merge_conv' map_add_def
      split: option.splits)

text \<open>
  C8, as the code has it. A review call writes \<open>{timestamp, feedback: payload}\<close> under
  \<open>lastReviewPlan\<close>, for every payload. An adjustment or confirmation call whose payload
  is a JSON object with no field named \<open>timestamp\<close> writes, under its key, an object with
  every field of the payload and the time of the write as \<open>timestamp\<close>. In each case the
  value read back after the write is this object, whatever the store held under the key
  before: the last write wins and nothing of the earlier value is kept.
\<close>

theorem cached_result_round_trip:
  assumes "out_type out = ''function_call''" and "JSON_parse env (arguments out) = Some payload"
  shows "(out_name out = ''review_current_weekly_plan'' \<longrightarrow>
            (\<exists>s'. process_output env now r out (c, w) = Inr s' \<and>
               localStorage (snd s') ''lastReviewPlan'' =
                 Some (JObj [(''timestamp'', JStr (toISOString env now)),
                             (''feedback'', payload)])))
       \<and> (out_name out = ''adjust_exercise_plan'' \<and> payload = JObj kvs \<and>
          map_of kvs ''timestamp'' = None \<longrightarrow>
            (\<exists>s' entry. process_output env now r out (c, w) = Inr s' \<and>
               localStorage (snd s') ''lastExerciseAdjustment'' = Some entry \<and>
               property entry ''timestamp'' = Some (JStr (toISOString env now)) \<and>
               (\<forall>k. k \<noteq> ''timestamp'' \<longrightarrow> property entry k = map_of kvs k)))
       \<and> (out_name out = ''confirm_final_plan'' \<and> payload = JObj kvs \<and>
          map_of kvs ''timestamp'' = None \<longrightarrow>
            (\<exists>s' entry. process_output env now r out (c, w) = Inr s' \<and>
               localStorage (snd s') ''lastPlanConfirmation'' = Some entry \<and>
               property entry ''timestamp'' = Some (JStr (toISOString env now)) \<and>
               (\<forall>k. k \<noteq> ''timestamp'' \<longrightarrow> property entry k = map_of kvs k)))"
  using assms
  by (auto simp: process_output_def on_review_def on_adjust_def on_confirm_def setTimeout_def
      setItem_def timestamp_def[symmetric] property_spread_timestamp property_spread_other)

theorem cached_result_round_trip_witness:
  "JSON_parse example_env review_arguments = Some (JObj [(''user_feedback'', JStr ''too hard'')])
   \<and> localStorage (snd review_run) ''lastReviewPlan'' =
       Some (JObj [(''timestamp'', JStr ''2025-01-01T00:00:01.000Z''),
                   (''feedback'', JObj [(''user_feedback'', JStr ''too hard'')])])
   \<and> (\<exists>s'. process_output example_env 1735689603000 (fst review_run)
               \<lparr>out_type = ''function_call'', out_name = ''review_current_weekly_plan'',
                arguments = review_arguments\<rparr> (fst review_run, snd review_run) = Inr s' \<and>
             localStorage (snd s') ''lastReviewPlan'' =
               Some (JObj [(''timestamp'', JStr ''2025-01-01T00:00:03.000Z''),
                           (''feedback'', JObj [(''user_feedback'', JStr ''too hard'')])]))
   \<and> JSON_parse example_env adjust_arguments =
       Some (JObj [(''exercises'', JArr []), (''total_weekly_minutes'', JNum 90)])
   \<and> map_of [(''exercises'', JArr []), (''total_weekly_minutes'', JNum 90)] ''timestamp'' = None
   \<and> (\<exists>s' entry. process_output example_env 1735689602000 (fst review_run)
               \<lparr>out_type = ''function_call'', out_name = ''adjust_exercise_plan'',
                arguments = adjust_arguments\<rparr> (fst review_run, snd review_run) = Inr s' \<and>
             localStorage (snd s') ''lastExerciseAdjustment'' = Some entry \<and>
             property entry ''timestamp'' = Some (JStr ''2025-01-01T00:00:02.000Z'') \<and>
             property entry ''exercises'' = Some (JArr []) \<and>
             property entry ''total_weekly_minutes'' = Some (JNum 90))"
proof -
  let ?review = "\<lparr>out_type = ''function_call'', out_name = ''review_current_weekly_plan'',
    arguments = review_arguments\<rparr>"
  let ?adjust = "\<lparr>out_type = ''function_call'', out_name = ''adjust_exercise_plan'',
    arguments = adjust_arguments\<rparr>"
  let ?kvs = "[(''exercises'', JArr []), (''total_weekly_minutes'', JNum 90)]"
  have p1: "JSON_parse example_env (arguments ?review) =
      Some (JObj [(''user_feedback'', JStr ''too hard'')])"
    by (simp add: example_env_def)
  have p2: "JSON_parse example_env (arguments ?adjust) = Some (JObj ?kvs)"
    by (simp add: example_env_def review_arguments_def adjust_arguments_def)
  have t: "toISOString example_env 1735689603000 = ''2025-01-01T00:00:03.000Z''"
    "toISOString example_env 1735689602000 = ''2025-01-01T00:00:02.000Z''"
    by (simp_all add: example_env_def)
  have old: "localStorage (snd review_run) ''lastReviewPlan'' =
       Some (JObj [(''timestamp'', JStr ''2025-01-01T00:00:01.000Z''),
                   (''feedback'', JObj [(''user_feedback'', JStr ''too hard'')])])"
    by (simp add: review_run_eq)
  have first: "\<exists>s'. process_output example_env 1735689603000 (fst review_run) ?review
                 (fst review_run, snd review_run) = Inr s' \<and>
             localStorage (snd s') ''lastReviewPlan'' =
               Some (JObj [(''timestamp'', JStr ''2025-01-01T00:00:03.000Z''),
                           (''feedback'', JObj [(''user_feedback'', JStr ''too hard'')])])"
    using cached_result_round_trip[where out = ?review and env = example_env
        and now = 1735689603000 and r = "fst review_run" and c = "fst review_run"
        and w = "snd review_run", OF _ p1]
    by (simp add: t)
  obtain s' entry where second:
    "process_output example_env 1735689602000 (fst review_run) ?adjust
       (fst review_run, snd review_run) = Inr s'"
    "localStorage (snd s') ''lastExerciseAdjustment'' = Some entry"
    "property entry ''timestamp'' = Some (JStr ''2025-01-01T00:00:02.000Z'')"
    "\<forall>k. k \<noteq> ''timestamp'' \<longrightarrow> property entry k = map_of ?kvs k"
    using cached_result_round_trip[where out = ?adjust and env = example_env
        and now = 1735689602000 and r = "fst review_run" and c = "fst review_run"
        and w = "snd review_run" and kvs = ?kvs, OF _ p2]
    by (auto simp: t)
  have "property entry ''exercises'' = Some (JArr [])"
    "property entry ''total_weekly_minutes'' = Some (JNum 90)"
    using second(4) by simp_all
  with second have "\<exists>s' entry. process_output example_env 1735689602000 (fst review_run) ?adjust
               (fst review_run, snd review_run) = Inr s' \<and>
             localStorage (snd s') ''lastExerciseAdjustment'' = Some entry \<and>
             property entry ''timestamp'' = Some (JStr ''2025-01-01T00:00:02.000Z'') \<and>
             property entry ''exercises'' = Some (JArr []) \<and>
             property entry ''total_weekly_minutes'' = Some (JNum 90)"
    by blast
  with first old p1 p2 show ?thesis
    by simp
qed

text \<open>
  C8, as stated, fails for a payload that has a \<open>timestamp\<close> field of its own: the spread
  writes it over the time of the write, and what is read back carries the payload's value,
  here an instant of 1970 for a write made in 2025.
\<close>

theorem payload_timestamp_kept:
  "snd stamped_run = None
   \<and> toISOString example_env 1735689601000 = ''2025-01-01T00:00:01.000Z''
   \<and> localStorage (snd (fst stamped_run)) ''lastExerciseAdjustment'' =
       Some (JObj [(''timestamp'', JStr ''1970-01-01T00:00:00.000Z''), (''exercises'', JArr [])])"
  unfolding stamped_run_def
  by (simp add: message_first_created message_after_registration example_defs handler_defs)

end
